theory Spec2Isabelle
  imports Main "HOL-Library.Word"
begin

unbundle bit_operations_syntax

section \<open>The TCP layer of rdesktop (tcp.c): data model\<close>

text \<open>
  The embedding follows \<^verbatim>\<open>src/tcp.c\<close> function by function. The file-level
  variables of the C file are the fields of one record, \<open>tcp_state\<close>, which every
  operation takes and returns. What the C code obtains from outside (the socket
  calls, the GnuTLS record layer, the resolver, the user interface) is an oracle in
  the record \<open>env\<close>: a function of the number of external calls made so far (the
  field \<open>clock\<close> of the state) and of the arguments of the call. A function that can
  leave without returning to its caller (\<^verbatim>\<open>exit\<close>, a failed \<^verbatim>\<open>assert\<close>, a
  dereferenced null pointer, a write past a fixed buffer) returns \<open>Inl\<close> of a
  \<open>halt\<close>. The build modelled is the one with \<^verbatim>\<open>IPv6\<close> defined and
  \<^verbatim>\<open>WITH_SCARD\<close> undefined (\<^verbatim>\<open>STREAM_COUNT\<close> is 1), on a POSIX system.
\<close>

type_synonym uint8 = "8 word"
type_synonym uint32 = "32 word"

datatype halt = NullDeref | BufferOverrun | AssertFailed | Exited int

text \<open>
  \<^verbatim>\<open>struct stream\<close>: \<open>s_data\<close> holds the bytes between the pointers
  \<^verbatim>\<open>data\<close> and \<^verbatim>\<open>end\<close>, \<open>s_p\<close> is the offset \<^verbatim>\<open>p - data\<close>, and
  \<open>s_size\<close> the allocated size.
\<close>

record stream =
  s_data :: "uint8 list"
  s_p :: nat
  s_size :: uint32

text \<open>\<^verbatim>\<open>struct addrinfo\<close>; the chain through \<^verbatim>\<open>ai_next\<close> is a list of these.\<close>

record addrinfo =
  ai_family :: int
  ai_socktype :: int
  ai_protocol :: int
  ai_addr :: "uint8 list"
  ai_canonname :: "string option"

text \<open>
  The peer certificate as the GnuTLS calls of \<^verbatim>\<open>check_cert\<close> read it: the buffer
  and size that \<^verbatim>\<open>gnutls_x509_crt_get_dn\<close> fills, the raw public key that
  \<^verbatim>\<open>gnutls_verify_stored_pubkey\<close> and \<^verbatim>\<open>gnutls_store_pubkey\<close> hand to the
  callbacks of the trust database, the expiration time, and the result and text of
  \<^verbatim>\<open>gnutls_x509_crt_print\<close>.
\<close>

record x509_crt =
  crt_dn :: string
  crt_dn_size :: nat
  crt_pubkey :: "uint8 list"
  crt_expiration :: "64 word"
  crt_print_rv :: int
  crt_print :: string

record tls_session =
  certificate_type :: int
  certificate_peers :: "x509_crt list"

datatype stat_result = StatFailed int | StatMode uint32

record tcp_state =
  g_server_address :: "addrinfo option"
  g_last_server_name :: "string option"
  g_ssl_initialized :: bool
  g_sock :: int
  g_run_ui :: bool
  g_in :: stream
  g_out :: stream
  g_network_error :: bool
  g_exit_mainloop :: bool
  clock :: nat
  wire :: "uint8 list"
  waits :: "(int \<times> int) list"
  peers :: "int \<rightharpoonup> addrinfo"
  resolved :: "string list"
  sockopts :: "(int \<times> string \<times> uint32) list"
  files :: "string \<rightharpoonup> string"
  shown :: "string list"

text \<open>
  The fields after \<open>g_exit_mainloop\<close> are the world the C code acts on: the number
  of external calls made, the bytes the transport has accepted, the timeouts
  (\<^verbatim>\<open>tv_sec\<close>, \<^verbatim>\<open>tv_usec\<close>) of the \<^verbatim>\<open>select\<close> calls of \<^verbatim>\<open>tcp_can_send\<close>,
  the connected sockets with their peers, the host names handed to
  \<^verbatim>\<open>getaddrinfo\<close>, the \<^verbatim>\<open>setsockopt\<close> calls, the regular files by path, and
  the messages \<^verbatim>\<open>util_dialog_choice\<close> has displayed.
\<close>

record env =
  sys_send :: "nat \<Rightarrow> nat \<Rightarrow> int"
  sys_recv :: "nat \<Rightarrow> nat \<Rightarrow> int \<times> uint8 list"
  tcp_blocks :: "nat \<Rightarrow> bool"
  sys_select :: "nat \<Rightarrow> int"
  gnutls_record_send :: "nat \<Rightarrow> nat \<Rightarrow> int"
  gnutls_record_recv :: "nat \<Rightarrow> nat \<Rightarrow> int \<times> uint8 list"
  gnutls_record_check_pending :: "nat \<Rightarrow> int"
  gnutls_error_is_fatal :: "int \<Rightarrow> bool"
  ui_select :: "nat \<Rightarrow> bool"
  sys_getaddrinfo :: "nat \<Rightarrow> string \<Rightarrow> int \<Rightarrow> int \<times> addrinfo list"
  sys_socket :: "nat \<Rightarrow> addrinfo \<Rightarrow> int"
  sys_getnameinfo :: "nat \<Rightarrow> addrinfo \<Rightarrow> int"
  sys_connect :: "nat \<Rightarrow> int \<Rightarrow> addrinfo \<Rightarrow> int"
  sys_getsockopt :: "nat \<Rightarrow> int \<times> uint32"
  g_tcp_port_rdp :: int
  gnutls_init :: "nat \<Rightarrow> int"
  gnutls_priority_set_direct :: "nat \<Rightarrow> int"
  gnutls_certificate_allocate_credentials :: "nat \<Rightarrow> int"
  gnutls_credentials_set :: "nat \<Rightarrow> int"
  gnutls_handshake :: "nat \<Rightarrow> int"
  gnutls_certificate_verification_status_print :: "nat \<Rightarrow> int"
  g_tls_session :: "nat \<Rightarrow> tls_session"
  getenv_HOME :: "string option"
  sys_stat :: "string \<Rightarrow> stat_result"
  rd_certcache_mkdir :: bool
  utils_djb2_hash :: "string \<Rightarrow> uint32"
  fopen_w :: "string \<Rightarrow> bool"
  b64_uninit :: "nat \<Rightarrow> string"
  util_dialog_choice :: "string \<Rightarrow> string option"

text \<open>
  \<open>tcp_blocks E n\<close> is the value of the macro \<^verbatim>\<open>TCP_BLOCKS\<close> after the external
  call number \<open>n\<close>. \<open>ui_select E n\<close> is the value of \<^verbatim>\<open>g_exit_mainloop\<close> when
  \<^verbatim>\<open>ui_select\<close> returns from that call. \<open>g_tls_session E n\<close> is what the session
  reports about the peer once the handshake has ended at call \<open>n\<close>.
  \<open>utils_djb2_hash\<close>, \<open>rd_certcache_mkdir\<close> and \<open>util_dialog_choice\<close> are
  functions of rdesktop defined outside \<^verbatim>\<open>tcp.c\<close>; they are parameters here.
  \<open>fopen_w E f\<close> says whether \<^verbatim>\<open>fopen(f, "w+")\<close> succeeds.
  \<open>b64_uninit E n\<close> is what the uninitialised array \<^verbatim>\<open>b64\<close> of
  \<^verbatim>\<open>cert_tdb_store\<close> holds from index \<open>n\<close> on when the function is entered, read
  as a C string (up to the first NUL).
\<close>

section \<open>The I/O engine\<close>

text \<open>\<^verbatim>\<open>tcp_can_send\<close> (lines 238-255): one \<^verbatim>\<open>select\<close> with the timeout built from \<open>millis\<close>.\<close>

definition tcp_can_send :: "env \<Rightarrow> int \<Rightarrow> int \<Rightarrow> tcp_state \<Rightarrow> bool \<times> tcp_state" where
  "tcp_can_send E sck millis st =
     (let tv_sec = millis div 1000;
          tv_usec = (millis * 1000) mod 1000000;
          sel_count = sys_select E (clock st);
          st' = st\<lparr>clock := Suc (clock st), waits := waits st @ [(tv_sec, tv_usec)]\<rparr>
      in (0 < sel_count, st'))"

text \<open>
  One call of the transport's write with \<open>sent\<close> as its result: the clock advances and
  the transport has taken the first \<open>sent\<close> bytes of \<^verbatim>\<open>s->data + total\<close>.
\<close>

definition transmit :: "uint8 list \<Rightarrow> int \<Rightarrow> int \<Rightarrow> tcp_state \<Rightarrow> tcp_state" where
  "transmit d total' sent st =
     st\<lparr>clock := Suc (clock st), wire := wire st @ take (nat sent) (drop (nat total') d)\<rparr>"

text \<open>
  The loop of \<^verbatim>\<open>tcp_send\<close> (lines 291-332). The C loop has no bound, so the model
  takes fuel, one unit per evaluation of the loop condition; \<open>None\<close> means that the
  loop was still running when the fuel ran out.
\<close>

fun tcp_send_loop :: "env \<Rightarrow> nat \<Rightarrow> uint8 list \<Rightarrow> int \<Rightarrow> tcp_state \<Rightarrow> tcp_state option" where
  "tcp_send_loop E 0 d total' st = None"
| "tcp_send_loop E (Suc fuel) d total' st =
     (if total' < int (length d) then
        (if g_ssl_initialized st then
           (let sent = gnutls_record_send E (clock st) (nat (int (length d) - total'));
                st1 = transmit d total' sent st
            in if sent \<le> 0 then
                 (if gnutls_error_is_fatal E sent then Some (st1\<lparr>g_network_error := True\<rparr>)
                  else tcp_send_loop E fuel d (total' + 0) (snd (tcp_can_send E (g_sock st1) 100 st1)))
               else tcp_send_loop E fuel d (total' + sent) st1)
         else
           (let sent = sys_send E (clock st) (nat (int (length d) - total'));
                st1 = transmit d total' sent st
            in if sent \<le> 0 then
                 (if sent = -1 \<and> tcp_blocks E (clock st) then
                    tcp_send_loop E fuel d (total' + 0) (snd (tcp_can_send E (g_sock st1) 100 st1))
                  else Some (st1\<lparr>g_network_error := True\<rparr>))
               else tcp_send_loop E fuel d (total' + sent) st1))
      else Some st)"

text \<open>\<^verbatim>\<open>tcp_send\<close> (lines 278-336).\<close>

definition tcp_send :: "env \<Rightarrow> nat \<Rightarrow> stream \<Rightarrow> tcp_state \<Rightarrow> tcp_state option" where
  "tcp_send E fuel s st =
     (if g_network_error st then Some st else tcp_send_loop E fuel (s_data s) 0 st)"

text \<open>
  The loop of \<^verbatim>\<open>tcp_recv\<close> (lines 374-427) on the stream \<open>s\<close>, with the remaining
  \<open>length\<close> as the C code's \<^verbatim>\<open>uint32\<close>. The result is the stream as the loop left
  it, with \<open>True\<close> when the loop ended (the C function then returns \<open>s\<close>) and
  \<open>False\<close> when it returned \<^verbatim>\<open>NULL\<close>.
\<close>

definition receive :: "int \<times> uint8 list \<Rightarrow> stream \<Rightarrow> stream" where
  "receive r s = s\<lparr>s_data := s_data s @ take (nat (fst r)) (snd r)\<rparr>"

text \<open>
  Lines 377-385: the wait in the user interface's event loop before a read. The
  result is \<open>True\<close> when \<^verbatim>\<open>tcp_recv\<close> returns \<^verbatim>\<open>NULL\<close> here because the main
  loop is to exit. \<^verbatim>\<open>gnutls_record_check_pending\<close> is called only with TLS on.
\<close>

definition tcp_recv_ui :: "env \<Rightarrow> tcp_state \<Rightarrow> bool \<times> tcp_state" where
  "tcp_recv_ui E st =
     (let pending = gnutls_record_check_pending E (clock st);
          st0 = (if g_ssl_initialized st then st\<lparr>clock := Suc (clock st)\<rparr> else st)
      in if (\<not> g_ssl_initialized st \<or> pending \<le> 0) \<and> g_run_ui st then
           (let st1 = st0\<lparr>clock := Suc (clock st0), g_exit_mainloop := ui_select E (clock st0)\<rparr>
            in (g_exit_mainloop st1, st1))
         else (False, st0))"

fun tcp_recv_loop ::
  "env \<Rightarrow> nat \<Rightarrow> stream \<Rightarrow> uint32 \<Rightarrow> tcp_state \<Rightarrow> (bool \<times> stream \<times> tcp_state) option" where
  "tcp_recv_loop E 0 s len st = None"
| "tcp_recv_loop E (Suc fuel) s len st =
     (if 0 < len then
        (let st1 = snd (tcp_recv_ui E st)
         in if fst (tcp_recv_ui E st) then Some (False, s, st1)
            else if g_ssl_initialized st1 then
              (let r = gnutls_record_recv E (clock st1) (unat len);
                   rcvd = fst r;
                   st2 = st1\<lparr>clock := Suc (clock st1)\<rparr>
               in if rcvd < 0 then
                    (if gnutls_error_is_fatal E rcvd
                     then Some (False, s, st2\<lparr>g_network_error := True\<rparr>)
                     else tcp_recv_loop E fuel s (len - 0) st2)
                  else tcp_recv_loop E fuel (receive r s) (len - word_of_int rcvd) st2)
            else
              (let r = sys_recv E (clock st1) (unat len);
                   rcvd = fst r;
                   st2 = st1\<lparr>clock := Suc (clock st1)\<rparr>
               in if rcvd < 0 then
                    (if rcvd = -1 \<and> tcp_blocks E (clock st1)
                     then tcp_recv_loop E fuel s (len - 0) st2
                     else Some (False, s, st2\<lparr>g_network_error := True\<rparr>))
                  else if rcvd = 0 then Some (False, s, st2)
                  else tcp_recv_loop E fuel (receive r s) (len - word_of_int rcvd) st2))
      else Some (True, s, st))"

text \<open>
  \<^verbatim>\<open>tcp_recv\<close> (lines 339-430). \<open>s = None\<close> is the call with \<^verbatim>\<open>s == NULL\<close>, which
  reads into \<^verbatim>\<open>g_in\<close>; the state then holds \<^verbatim>\<open>g_in\<close> as the loop left it. The
  result \<open>None\<close> of the pair is the return value \<^verbatim>\<open>NULL\<close>.
\<close>

definition tcp_recv ::
  "env \<Rightarrow> nat \<Rightarrow> stream option \<Rightarrow> uint32 \<Rightarrow> tcp_state \<Rightarrow> (stream option \<times> tcp_state) option" where
  "tcp_recv E fuel s len st =
     (if g_network_error st then Some (None, st)
      else case s of
        None \<Rightarrow>
          (let gin = (if s_size (g_in st) < len then (g_in st)\<lparr>s_size := len\<rparr> else g_in st);
               gin' = gin\<lparr>s_data := [], s_p := 0\<rparr>
           in case tcp_recv_loop E fuel gin' len (st\<lparr>g_in := gin'\<rparr>) of
                None \<Rightarrow> None
              | Some (ok, s', st') \<Rightarrow>
                  Some (if ok then Some s' else None, st'\<lparr>g_in := s'\<rparr>))
      | Some s0 \<Rightarrow>
          (let new_length = word_of_nat (length (s_data s0)) + len;
               s1 = (if s_size s0 < new_length then s0\<lparr>s_size := new_length\<rparr> else s0)
           in case tcp_recv_loop E fuel s1 len st of
                None \<Rightarrow> None
              | Some (ok, s', st') \<Rightarrow> Some (if ok then Some s' else None, st')))"

text \<open>
  \<^verbatim>\<open>tcp_is_connected\<close> (lines 997-1005). \<^verbatim>\<open>getpeername\<close> returns 0 for a socket
  with a connected peer and -1 otherwise.
\<close>

definition getpeername :: "tcp_state \<Rightarrow> int \<Rightarrow> int" where
  "getpeername st sck = (case peers st sck of Some a \<Rightarrow> 0 | None \<Rightarrow> -1)"

definition tcp_is_connected :: "tcp_state \<Rightarrow> bool" where
  "tcp_is_connected st = (if getpeername st (g_sock st) \<noteq> 0 then True else False)"

section \<open>The connection manager\<close>

text \<open>\<^verbatim>\<open>tcp_connect_resolve_hostname\<close> (lines 765-770).\<close>

definition tcp_connect_resolve_hostname :: "tcp_state \<Rightarrow> string \<Rightarrow> bool" where
  "tcp_connect_resolve_hostname st server =
     (g_server_address st = None \<or> g_last_server_name st = None \<or>
      g_last_server_name st \<noteq> Some server)"

text \<open>
  The loop over the candidate addresses (lines 819-844). It ends by \<^verbatim>\<open>break\<close> at
  the address that connected, by running off the end of the list, or by the
  \<^verbatim>\<open>return False\<close> after a failed \<^verbatim>\<open>getnameinfo\<close>. A socket that \<^verbatim>\<open>socket\<close>
  returns has no peer; \<^verbatim>\<open>connect\<close> returning 0 gives it one; closing it takes the
  peer away.
\<close>

datatype connect_loop_end = Break addrinfo | EndOfList | ReturnFalse

fun tcp_connect_loop :: "env \<Rightarrow> addrinfo list \<Rightarrow> tcp_state \<Rightarrow> connect_loop_end \<times> tcp_state" where
  "tcp_connect_loop E [] st = (EndOfList, st)"
| "tcp_connect_loop E (addr # rest) st =
     (let sock = sys_socket E (clock st) addr;
          st1 = st\<lparr>clock := Suc (clock st), g_sock := sock, peers := (peers st)(sock := None)\<rparr>
      in if sock < 0 then tcp_connect_loop E rest st1
         else
           (let n = sys_getnameinfo E (clock st1) addr;
                st2 = st1\<lparr>clock := Suc (clock st1)\<rparr>
            in if n \<noteq> 0 then (ReturnFalse, st2)
               else
                 (let c = sys_connect E (clock st2) sock addr;
                      st3 = st2\<lparr>clock := Suc (clock st2)\<rparr>
                  in if c = 0 then (Break addr, st3\<lparr>peers := (peers st3)(sock \<mapsto> addr)\<rparr>)
                     else tcp_connect_loop E rest
                            (st3\<lparr>peers := (peers st3)(sock := None), g_sock := -1\<rparr>))))"

text \<open>Lines 920-942: the socket options and the buffers after a successful connect.\<close>

definition tcp_connect_setup :: "env \<Rightarrow> tcp_state \<Rightarrow> tcp_state" where
  "tcp_connect_setup E st =
     (let st1 = st\<lparr>sockopts := sockopts st @ [(g_sock st, ''TCP_NODELAY'', 1)]\<rparr>;
          r = sys_getsockopt E (clock st1);
          st2 = st1\<lparr>clock := Suc (clock st1)\<rparr>;
          st3 = (if fst r = 0 \<and> snd r < 1024 * 16
                 then st2\<lparr>sockopts := sockopts st2 @ [(g_sock st2, ''SO_RCVBUF'', 1024 * 16)]\<rparr>
                 else st2)
      in st3\<lparr>g_in := (g_in st3)\<lparr>s_data := [], s_size := 4096\<rparr>,
             g_out := (g_out st3)\<lparr>s_data := [], s_size := 4096\<rparr>\<rparr>)"

text \<open>
  \<^verbatim>\<open>tcp_connect\<close> (lines 782-949), the \<^verbatim>\<open>IPv6\<close> branch. When the cached address is
  used, \<open>addr\<close> is \<^verbatim>\<open>g_server_address\<close> itself and the copy at lines 860-873 is
  skipped. When the list ends with \<^verbatim>\<open>g_sock\<close> different from -1 (a \<^verbatim>\<open>socket\<close> that
  returned another negative number), line 864 copies from the null pointer.
\<close>

definition tcp_connect :: "env \<Rightarrow> string \<Rightarrow> tcp_state \<Rightarrow> halt + (bool \<times> tcp_state)" where
  "tcp_connect E server st =
     (let resolve = tcp_connect_resolve_hostname st server;
          r = sys_getaddrinfo E (clock st) server (g_tcp_port_rdp E);
          st1 = (if resolve
                 then st\<lparr>clock := Suc (clock st), resolved := resolved st @ [server]\<rparr>
                 else st)
      in if resolve \<and> fst r \<noteq> 0 then Inr (False, st1)
         else
           (let res = (if resolve then snd r
                       else (case g_server_address st of Some a \<Rightarrow> [a] | None \<Rightarrow> []));
                (e, st2) = tcp_connect_loop E res (st1\<lparr>g_sock := -1\<rparr>)
            in case e of
                 ReturnFalse \<Rightarrow> Inr (False, st2)
               | EndOfList \<Rightarrow> if g_sock st2 = -1 then Inr (False, st2) else Inl NullDeref
               | Break addr \<Rightarrow>
                   if g_sock st2 = -1 then Inr (False, st2)
                   else
                     (let st3 = (if resolve
                                 then st2\<lparr>g_server_address := Some (addr\<lparr>ai_canonname := None\<rparr>)\<rparr>
                                 else st2);
                          st4 = tcp_connect_setup E st3
                      in Inr (True, st4\<lparr>g_last_server_name := Some server\<rparr>))))"

text \<open>\<^verbatim>\<open>tcp_disconnect\<close> (lines 952-979); \<^verbatim>\<open>gnutls_bye\<close> is one external call.\<close>

definition tcp_disconnect :: "tcp_state \<Rightarrow> tcp_state" where
  "tcp_disconnect st =
     (let st1 = (if g_ssl_initialized st
                 then st\<lparr>clock := Suc (clock st), g_ssl_initialized := False\<rparr>
                 else st)
      in st1\<lparr>peers := (peers st1)(g_sock st1 := None), g_sock := -1,
             g_in := (g_in st1)\<lparr>s_data := [], s_size := 0\<rparr>,
             g_out := (g_out st1)\<lparr>s_data := [], s_size := 0\<rparr>\<rparr>)"

text \<open>
  \<^verbatim>\<open>tcp_reset_state\<close> (lines 1009-1022) and \<^verbatim>\<open>tcp_run_ui\<close> (lines 1024-1028).
  Modelled from the spec: \<^verbatim>\<open>s_reset\<close> is defined with the stream type, outside
  \<^verbatim>\<open>tcp.c\<close>; it clears the logical content (the cursors) of a buffer and keeps its
  memory.
\<close>

definition s_reset :: "stream \<Rightarrow> stream" where
  "s_reset s = s\<lparr>s_data := [], s_p := 0\<rparr>"

definition tcp_reset_state :: "tcp_state \<Rightarrow> tcp_state" where
  "tcp_reset_state st = st\<lparr>g_in := s_reset (g_in st), g_out := s_reset (g_out st)\<rparr>"

definition tcp_run_ui :: "bool \<Rightarrow> tcp_state \<Rightarrow> tcp_state" where
  "tcp_run_ui run st = st\<lparr>g_run_ui := run\<rparr>"

section \<open>The trust store\<close>

subsection \<open>Text and base64 primitives\<close>

text \<open>
  The C library calls of the store: the conversions \<^verbatim>\<open>%ld\<close> and \<^verbatim>\<open>%x\<close> of
  \<^verbatim>\<open>printf\<close>, \<^verbatim>\<open>fgets\<close> (at most \<open>size - 1\<close> characters, up to and with the
  first newline; \<open>None\<close> at the end of the file), the prefix of a buffer that C's
  string functions see (up to the first NUL), and \<^verbatim>\<open>strstr\<close>.
\<close>

definition digit_char :: "int \<Rightarrow> char" where
  "digit_char n = ''0123456789abcdef'' ! nat n"

text \<open>
  The digits of \<open>n\<close> in base \<open>b\<close>, most significant first, \<open>k\<close> of them at most: 20
  decimal digits hold every 64-bit value and 8 hexadecimal digits every 32-bit value.
\<close>

fun digits :: "nat \<Rightarrow> int \<Rightarrow> int \<Rightarrow> string" where
  "digits 0 b n = []"
| "digits (Suc k) b n =
     (if n < b then [digit_char n] else digits k b (n div b) @ [digit_char (n mod b)])"

definition printf_ld :: "64 word \<Rightarrow> string" where
  "printf_ld x =
     (if sint x < 0 then CHR ''-'' # digits 20 10 (- sint x) else digits 20 10 (sint x))"

definition printf_x :: "uint32 \<Rightarrow> string" where
  "printf_x x = digits 8 16 (uint x)"

fun read_line :: "nat \<Rightarrow> string \<Rightarrow> string \<times> string" where
  "read_line 0 cs = ([], cs)"
| "read_line (Suc n) [] = ([], [])"
| "read_line (Suc n) (c # cs) =
     (if c = CHR 0x0A then ([c], cs)
      else (case read_line n cs of (l, r) \<Rightarrow> (c # l, r)))"

definition fgets :: "nat \<Rightarrow> string \<Rightarrow> (string \<times> string) option" where
  "fgets size' inp = (if inp = [] then None else Some (read_line (size' - 1) inp))"

definition c_str :: "string \<Rightarrow> string" where
  "c_str buf = takeWhile (\<lambda>c. c \<noteq> CHR 0x00) buf"

fun strstr :: "string \<Rightarrow> string \<Rightarrow> string option" where
  "strstr [] needle = (if needle = [] then Some [] else None)"
| "strstr (c # cs) needle =
     (if take (length needle) (c # cs) = needle then Some (c # cs) else strstr cs needle)"

text \<open>
  The base64 codec of Nettle, which \<^verbatim>\<open>tcp.c\<close> calls (\<^verbatim>\<open>nettle/base64.h\<close>):
  \<^verbatim>\<open>base64_encode_raw\<close> writes \<^verbatim>\<open>BASE64_ENCODE_RAW_LENGTH(length)\<close> characters, and
  \<^verbatim>\<open>base64_decode_update\<close> feeds the characters one by one to
  \<^verbatim>\<open>base64_decode_single\<close>, which skips white space, rejects any other character
  outside the alphabet and rejects data after padding. \<open>None\<close> is the return value 0
  of \<^verbatim>\<open>base64_decode_update\<close>; \<open>Some (ctx, dst)\<close> is the return value 1 with the
  bytes written to \<^verbatim>\<open>dst\<close>.
\<close>

definition BASE64_ENCODE_RAW_LENGTH :: "nat \<Rightarrow> nat" where
  "BASE64_ENCODE_RAW_LENGTH n = ((n + 2) div 3) * 4"

definition base64_encode_table :: string where
  "base64_encode_table = ''ABCDEFGHIJKLMNOPQRSTUVWXYZabcdefghijklmnopqrstuvwxyz0123456789+/''"

definition ENCODE :: "uint32 \<Rightarrow> char" where
  "ENCODE x = base64_encode_table ! unat (x AND 0x3F)"

fun base64_encode_raw :: "uint8 list \<Rightarrow> string" where
  "base64_encode_raw [] = []"
| "base64_encode_raw [a] =
     [ENCODE (drop_bit 2 (ucast a)), ENCODE (push_bit 4 (ucast a)), CHR ''='', CHR ''='']"
| "base64_encode_raw [a, b] =
     [ENCODE (drop_bit 2 (ucast a)),
      ENCODE (push_bit 4 (ucast a) OR drop_bit 4 (ucast b)),
      ENCODE (push_bit 2 (ucast b)), CHR ''='']"
| "base64_encode_raw (a # b # c # rest) =
     [ENCODE (drop_bit 2 (ucast a)),
      ENCODE (push_bit 4 (ucast a) OR drop_bit 4 (ucast b)),
      ENCODE (push_bit 2 (ucast b) OR drop_bit 6 (ucast c)),
      ENCODE (ucast c)] @ base64_encode_raw rest"

definition TABLE_INVALID :: int where "TABLE_INVALID = -1"
definition TABLE_SPACE :: int where "TABLE_SPACE = -2"
definition TABLE_END :: int where "TABLE_END = -3"

definition base64_decode_table :: "char \<Rightarrow> int" where
  "base64_decode_table c =
     (let n = (of_char c :: nat)
      in if 65 \<le> n \<and> n \<le> 90 then int n - 65
         else if 97 \<le> n \<and> n \<le> 122 then int n - 71
         else if 48 \<le> n \<and> n \<le> 57 then int n + 4
         else if n = 43 then 62
         else if n = 47 then 63
         else if n = 61 then TABLE_END
         else if n = 32 \<or> (9 \<le> n \<and> n \<le> 13) then TABLE_SPACE
         else TABLE_INVALID)"

record base64_decode_ctx =
  ctx_word :: "16 word"
  ctx_bits :: nat
  ctx_padding :: nat

definition base64_decode_init :: base64_decode_ctx where
  "base64_decode_init = \<lparr>ctx_word = 0, ctx_bits = 0, ctx_padding = 0\<rparr>"

definition base64_decode_single :: "base64_decode_ctx \<Rightarrow> char \<Rightarrow> int \<times> base64_decode_ctx \<times> uint8" where
  "base64_decode_single ctx src =
     (let data = base64_decode_table src
      in if data = TABLE_INVALID then (-1, ctx, 0)
         else if data = TABLE_SPACE then (0, ctx, 0)
         else if data = TABLE_END then
           (if ctx_bits ctx = 0 \<or> 2 < ctx_padding ctx then (-1, ctx, 0)
            else if ctx_word ctx AND mask (ctx_bits ctx) \<noteq> 0 then (-1, ctx, 0)
            else (0, ctx\<lparr>ctx_padding := ctx_padding ctx + 1, ctx_bits := ctx_bits ctx - 2\<rparr>, 0))
         else if ctx_padding ctx \<noteq> 0 then (-1, ctx, 0)
         else
           (let w = push_bit 6 (ctx_word ctx) OR word_of_int data;
                b = ctx_bits ctx + 6
            in if 8 \<le> b
               then (1, ctx\<lparr>ctx_word := w, ctx_bits := b - 8\<rparr>, ucast (drop_bit (b - 8) w))
               else (0, ctx\<lparr>ctx_word := w, ctx_bits := b\<rparr>, 0)))"

fun base64_decode_loop ::
  "base64_decode_ctx \<Rightarrow> uint8 list \<Rightarrow> string \<Rightarrow> (base64_decode_ctx \<times> uint8 list) option" where
  "base64_decode_loop ctx dst [] = Some (ctx, dst)"
| "base64_decode_loop ctx dst (c # cs) =
     (case base64_decode_single ctx c of
        (r, ctx', b) \<Rightarrow>
          if r = -1 then None
          else if r = 1 then base64_decode_loop ctx' (dst @ [b]) cs
          else base64_decode_loop ctx' dst cs)"

definition base64_decode_update ::
  "base64_decode_ctx \<Rightarrow> string \<Rightarrow> (base64_decode_ctx \<times> uint8 list) option" where
  "base64_decode_update ctx src = base64_decode_loop ctx [] src"

subsection \<open>The callbacks of the trust database\<close>

definition GNUTLS_E_SUCCESS :: int where "GNUTLS_E_SUCCESS = 0"
definition GNUTLS_E_DB_ERROR :: int where "GNUTLS_E_DB_ERROR = -30"
definition GNUTLS_E_NO_CERTIFICATE_FOUND :: int where "GNUTLS_E_NO_CERTIFICATE_FOUND = -49"
definition GNUTLS_E_CERTIFICATE_KEY_MISMATCH :: int where "GNUTLS_E_CERTIFICATE_KEY_MISMATCH = -60"
definition GNUTLS_E_CERTIFICATE_VERIFICATION_ERROR :: int where
  "GNUTLS_E_CERTIFICATE_VERIFICATION_ERROR = -348"
definition GNUTLS_CRT_X509 :: int where "GNUTLS_CRT_X509 = 1"

text \<open>\<^verbatim>\<open>cert_store_cache_filename\<close> (lines 106-112), with the bound of \<^verbatim>\<open>snprintf\<close>.\<close>

definition cert_store_cache_filename :: "env \<Rightarrow> string \<Rightarrow> string \<Rightarrow> nat \<Rightarrow> string" where
  "cert_store_cache_filename E db_name host size' =
     take (size' - 1) (db_name @ ''/'' @ printf_x (utils_djb2_hash E host))"

definition unlink :: "string \<Rightarrow> tcp_state \<Rightarrow> tcp_state" where
  "unlink filename st = st\<lparr>files := (files st)(filename := None)\<rparr>"

text \<open>
  \<^verbatim>\<open>cert_tdb_store\<close> (lines 114-135). The array \<^verbatim>\<open>b64\<close> has
  \<^verbatim>\<open>BASE64_ENCODE_RAW_LENGTH(4096)\<close> elements, so a longer encoding is written past
  it; \<^verbatim>\<open>fopen\<close> is not checked, so a failed \<^verbatim>\<open>fopen\<close> hands the null pointer to
  \<^verbatim>\<open>fprintf\<close>. The encoder writes no terminator and the array is not initialised,
  so \<^verbatim>\<open>%s\<close> prints the encoded text and then whatever the array held behind it, up
  to the first NUL; with no NUL inside the array it reads past the array.
\<close>

definition cert_tdb_store ::
  "env \<Rightarrow> string \<Rightarrow> string \<Rightarrow> string \<Rightarrow> 64 word \<Rightarrow> uint8 list \<Rightarrow> tcp_state \<Rightarrow> halt + (int \<times> tcp_state)" where
  "cert_tdb_store E db_name host service expiration pubkey st =
     (if BASE64_ENCODE_RAW_LENGTH 4096 < BASE64_ENCODE_RAW_LENGTH (length pubkey)
      then Inl BufferOverrun
      else
        (let b64 = base64_encode_raw pubkey @
                   c_str (b64_uninit E (BASE64_ENCODE_RAW_LENGTH (length pubkey)));
             filename = cert_store_cache_filename E db_name host 4096
         in if \<not> fopen_w E filename then Inl NullDeref
            else if BASE64_ENCODE_RAW_LENGTH 4096 \<le> length b64 then Inl BufferOverrun
            else Inr (GNUTLS_E_SUCCESS,
                      st\<lparr>files := (files st)(filename \<mapsto>
                           printf_ld expiration @ [CHR 0x0A] @ b64 @ [CHR 0x0A])\<rparr>)))"

text \<open>\<^verbatim>\<open>cert_tdb_verify\<close> (lines 137-207). A file of the map is one that \<^verbatim>\<open>fopen\<close> can read.\<close>

definition cert_tdb_verify ::
  "env \<Rightarrow> string \<Rightarrow> string \<Rightarrow> string \<Rightarrow> uint8 list \<Rightarrow> tcp_state \<Rightarrow> int \<times> tcp_state" where
  "cert_tdb_verify E db_name host service pubkey st =
     (let filename = cert_store_cache_filename E db_name host 4096
      in case files st filename of
           None \<Rightarrow> (GNUTLS_E_NO_CERTIFICATE_FOUND, unlink filename st)
         | Some content \<Rightarrow>
             (case fgets 4096 content of
                None \<Rightarrow> (GNUTLS_E_NO_CERTIFICATE_FOUND, unlink filename st)
              | Some (expiration_line, rest) \<Rightarrow>
                  (case fgets 4096 rest of
                     None \<Rightarrow> (GNUTLS_E_NO_CERTIFICATE_FOUND, unlink filename st)
                   | Some (buf, rest') \<Rightarrow>
                       (case base64_decode_update base64_decode_init (c_str buf) of
                          None \<Rightarrow> (GNUTLS_E_CERTIFICATE_KEY_MISMATCH, unlink filename st)
                        | Some (ctx, store_pubkey) \<Rightarrow>
                            if length pubkey \<noteq> length store_pubkey
                            then (GNUTLS_E_CERTIFICATE_KEY_MISMATCH, st)
                            else if pubkey \<noteq> store_pubkey
                            then (GNUTLS_E_CERTIFICATE_KEY_MISMATCH, st)
                            else (GNUTLS_E_SUCCESS, st)))))"

text \<open>
  The two GnuTLS entry points that \<^verbatim>\<open>check_cert\<close> calls, for the trust database
  \<^verbatim>\<open>g_tdb\<close> that \<^verbatim>\<open>cert_store_init\<close> (lines 227-235) fills with the callbacks
  above: each hands the raw public key of the certificate to the callback;
  \<^verbatim>\<open>gnutls_verify_stored_pubkey\<close> turns any negative result other than the key
  mismatch into \<^verbatim>\<open>GNUTLS_E_NO_CERTIFICATE_FOUND\<close>, and \<^verbatim>\<open>gnutls_store_pubkey\<close> any
  negative result into \<^verbatim>\<open>GNUTLS_E_DB_ERROR\<close>.
\<close>

definition gnutls_verify_stored_pubkey ::
  "env \<Rightarrow> string \<Rightarrow> string \<Rightarrow> string \<Rightarrow> x509_crt \<Rightarrow> tcp_state \<Rightarrow> int \<times> tcp_state" where
  "gnutls_verify_stored_pubkey E db_name host service cert st =
     (case cert_tdb_verify E db_name host service (crt_pubkey cert) st of
        (ret, st') \<Rightarrow>
          (if ret < 0 \<and> ret \<noteq> GNUTLS_E_CERTIFICATE_KEY_MISMATCH
           then GNUTLS_E_NO_CERTIFICATE_FOUND else ret, st'))"

definition gnutls_store_pubkey ::
  "env \<Rightarrow> string \<Rightarrow> string \<Rightarrow> string \<Rightarrow> x509_crt \<Rightarrow> 64 word \<Rightarrow> tcp_state \<Rightarrow> halt + (int \<times> tcp_state)" where
  "gnutls_store_pubkey E db_name host service cert expiration st =
     (case cert_tdb_store E db_name host service expiration (crt_pubkey cert) st of
        Inl h \<Rightarrow> Inl h
      | Inr (ret, st') \<Rightarrow> Inr (if ret < 0 then GNUTLS_E_DB_ERROR else GNUTLS_E_SUCCESS, st'))"

subsection \<open>The trust check of a session\<close>

text \<open>
  The message of the prompt (lines 527-558). \<^verbatim>\<open>message\<close> has 2048 bytes and is
  filled with \<^verbatim>\<open>snprintf\<close> and then \<^verbatim>\<open>strcat\<close>, which does not check the bound.
\<close>

definition mismatch_message :: "string \<Rightarrow> x509_crt \<Rightarrow> string" where
  "mismatch_message name cert =
     take 2047 (''Host '' @ [CHR 0x27] @ name @ [CHR 0x27] @
                '' is known but has another key associated with it, '' @ [CHR 0x0A]) @
     (if crt_print_rv cert = 0
      then ''review the following certificate info:'' @ [CHR 0x0A, CHR 0x0A] @ '' '' @
           map (\<lambda>c. if c = CHR '','' then CHR 0x0A else c) (c_str (crt_print cert))
      else ''rdesktop failed to parse the certificate and there for '' @
           ''we can not display certificate information for you to '' @
           '' inspect the change.'' @ [CHR 0x0A, CHR 0x0A]) @
     [CHR 0x0A, CHR 0x0A] @ ''Do you trust this certificate (yes/no)? ''"

definition ENOENT :: int where "ENOENT = 2"
definition S_IFMT :: uint32 where "S_IFMT = 0xF000"
definition S_IFDIR :: uint32 where "S_IFDIR = 0x4000"

definition certcache_dir :: "string \<Rightarrow> string" where
  "certcache_dir home = take 4094 (home @ ''/'' @ ''.local/share/rdesktop/certs/'')"

text \<open>
  Lines 458-470: \<open>True\<close> when the check of the cache directory jumps to \<^verbatim>\<open>bail\<close>.
\<close>

definition certcache_bail :: "env \<Rightarrow> string \<Rightarrow> bool" where
  "certcache_bail E dir =
     (case sys_stat E dir of
        StatFailed errno \<Rightarrow> errno = ENOENT \<and> \<not> rd_certcache_mkdir E
      | StatMode st_mode \<Rightarrow> st_mode AND S_IFMT \<noteq> S_IFDIR)"

text \<open>
  Lines 512-581 of \<^verbatim>\<open>check_cert\<close>: what follows the lookup of the key of \<open>cert\<close>
  under \<open>name\<close>. \<^verbatim>\<open>strcmp(response, "no")\<close> is evaluated before
  \<^verbatim>\<open>response == NULL\<close>, so an absent answer is dereferenced.
\<close>

definition check_cert_lookup ::
  "env \<Rightarrow> string \<Rightarrow> string \<Rightarrow> x509_crt \<Rightarrow> tcp_state \<Rightarrow> halt + (int \<times> tcp_state)" where
  "check_cert_lookup E dir name cert st =
     (case gnutls_verify_stored_pubkey E dir name ''rdesktop'' cert st of
        (rv, st1) \<Rightarrow>
          if rv = GNUTLS_E_NO_CERTIFICATE_FOUND then
            (case gnutls_store_pubkey E dir name ''rdesktop'' cert (crt_expiration cert) st1 of
               Inl h \<Rightarrow> Inl h
             | Inr (rv', st2) \<Rightarrow> if rv' \<noteq> GNUTLS_E_SUCCESS then Inr (1, st2) else Inr (0, st2))
          else if rv = GNUTLS_E_CERTIFICATE_KEY_MISMATCH then
            (let message = mismatch_message name cert
             in if 2048 \<le> length message then Inl BufferOverrun
                else
                  (let st2 = st1\<lparr>shown := shown st1 @ [message]\<rparr>
                   in case util_dialog_choice E message of
                        None \<Rightarrow> Inl NullDeref
                      | Some response \<Rightarrow>
                          if c_str response = ''no'' then Inr (1, st2)
                          else
                            (case gnutls_store_pubkey E dir name ''rdesktop'' cert
                                    (crt_expiration cert) st2 of
                               Inl h \<Rightarrow> Inl h
                             | Inr (rv', st3) \<Rightarrow>
                                 if rv' \<noteq> GNUTLS_E_SUCCESS then Inr (1, st3) else Inr (0, st3))))
          else if rv < 0 then Inr (1, st1)
          else Inr (0, st1))"

text \<open>\<^verbatim>\<open>check_cert\<close> (lines 432-589); the result 1 is the label \<^verbatim>\<open>bail\<close>.\<close>

definition check_cert :: "env \<Rightarrow> tls_session \<Rightarrow> tcp_state \<Rightarrow> halt + (int \<times> tcp_state)" where
  "check_cert E session st =
     (case getenv_HOME E of
        None \<Rightarrow> Inr (0, st)
      | Some home \<Rightarrow>
          if certcache_bail E (certcache_dir home) then Inr (1, st)
          else if certificate_type session = GNUTLS_CRT_X509 then
            (case certificate_peers session of
               [] \<Rightarrow> Inr (0, st)
             | cert # others \<Rightarrow>
                 if 0 < crt_dn_size cert then
                   (case strstr (c_str (crt_dn cert)) ''CN='' of
                      None \<Rightarrow> Inr (1, st)
                    | Some found \<Rightarrow>
                        (let name = drop 3 found
                         in if name = [] then Inr (1, st)
                            else check_cert_lookup E (certcache_dir home) name cert st))
                 else Inr (1, st))
          else Inr (0, st))"

section \<open>The TLS session\<close>

text \<open>
  The handshake loop of \<^verbatim>\<open>tcp_tls_connect\<close> (lines 630-632), with fuel as in
  \<open>tcp_send_loop\<close>.
\<close>

fun handshake_loop :: "env \<Rightarrow> nat \<Rightarrow> tcp_state \<Rightarrow> (int \<times> tcp_state) option" where
  "handshake_loop E 0 st = None"
| "handshake_loop E (Suc fuel) st =
     (let err = gnutls_handshake E (clock st);
          st1 = st\<lparr>clock := Suc (clock st)\<rparr>
      in if err < 0 \<and> \<not> gnutls_error_is_fatal E err then handshake_loop E fuel st1
         else Some (err, st1))"

text \<open>
  Lines 603-627: the set-up before the handshake. Each \<^verbatim>\<open>CHECK\<close> is an
  \<^verbatim>\<open>assert\<close> that the result is not negative.
\<close>

definition tls_setup :: "env \<Rightarrow> tcp_state \<Rightarrow> halt + tcp_state" where
  "tls_setup E st =
     (let init_rc = gnutls_init E (clock st);
          st1 = (if g_ssl_initialized st then st
                 else st\<lparr>clock := Suc (clock st), g_ssl_initialized := True\<rparr>)
      in if \<not> g_ssl_initialized st \<and> init_rc < 0 then Inl AssertFailed
         else if gnutls_priority_set_direct E (clock st1) < 0 then Inl AssertFailed
         else if gnutls_certificate_allocate_credentials E (Suc (clock st1)) < 0
         then Inl AssertFailed
         else if gnutls_credentials_set E (Suc (Suc (clock st1))) < 0 then Inl AssertFailed
         else Inr (st1\<lparr>clock := clock st1 + 3\<rparr>))"

text \<open>
  \<^verbatim>\<open>tcp_tls_connect\<close> (lines 592-676), for a GnuTLS of version 3.4.6 or later.
  \<open>None\<close> is the handshake loop out of fuel. Where the function does not return,
  the result is \<open>Inl\<close> of the way it ended and of the state it left: for
  \<^verbatim>\<open>exit(1)\<close> the state after \<^verbatim>\<open>check_cert\<close>, otherwise the state before the
  step that ended it.
\<close>

definition tcp_tls_connect ::
  "env \<Rightarrow> nat \<Rightarrow> tcp_state \<Rightarrow> (halt \<times> tcp_state + bool \<times> tcp_state) option" where
  "tcp_tls_connect E fuel st =
     (case tls_setup E st of
        Inl h \<Rightarrow> Some (Inl (h, st))
      | Inr st1 \<Rightarrow>
          (case handshake_loop E fuel st1 of
             None \<Rightarrow> None
           | Some (err, st2) \<Rightarrow>
               if err < 0 then
                 (if err = GNUTLS_E_CERTIFICATE_VERIFICATION_ERROR \<and>
                     gnutls_certificate_verification_status_print E (clock st2) < 0
                  then Some (Inl (AssertFailed, st2))
                  else
                    (let st3 = (if err = GNUTLS_E_CERTIFICATE_VERIFICATION_ERROR
                                then st2\<lparr>clock := Suc (clock st2)\<rparr> else st2)
                     in Some (Inr (False,
                          if g_ssl_initialized st3 then st3\<lparr>g_ssl_initialized := False\<rparr>
                          else st3))))
               else
                 (case check_cert E (g_tls_session E (clock st2)) st2 of
                    Inl h \<Rightarrow> Some (Inl (h, st2))
                  | Inr (rc, st3) \<Rightarrow>
                      if rc \<noteq> 0 then Some (Inl (Exited 1, st3)) else Some (Inr (True, st3)))))"

section \<open>An example environment\<close>

text \<open>
  A state and an environment for the concrete instances below: the variables of
  \<^verbatim>\<open>tcp.c\<close> at their initial values, a transport that takes and delivers whatever
  is asked, one resolved address, a home directory whose certificate cache is a
  directory, and an operator who answers no.
\<close>

definition empty_stream :: stream where
  "empty_stream = \<lparr>s_data = [], s_p = 0, s_size = 0\<rparr>"

definition initial_state :: tcp_state where
  "initial_state =
     \<lparr>g_server_address = None, g_last_server_name = None, g_ssl_initialized = False,
      g_sock = 0, g_run_ui = False, g_in = empty_stream, g_out = empty_stream,
      g_network_error = False, g_exit_mainloop = False, clock = 0, wire = [], waits = [],
      peers = Map.empty, resolved = [], sockopts = [], files = Map.empty, shown = []\<rparr>"

definition example_addr :: addrinfo where
  "example_addr =
     \<lparr>ai_family = 2, ai_socktype = 1, ai_protocol = 6, ai_addr = [192, 0, 2, 1],
      ai_canonname = None\<rparr>"

definition example_crt :: "uint8 list \<Rightarrow> x509_crt" where
  "example_crt key =
     \<lparr>crt_dn = ''CN=server.example.com'', crt_dn_size = 21, crt_pubkey = key,
      crt_expiration = 1700000000, crt_print_rv = 0, crt_print = ''subject CN=server.example.com''\<rparr>"

definition example_session :: "uint8 list \<Rightarrow> tls_session" where
  "example_session key = \<lparr>certificate_type = GNUTLS_CRT_X509, certificate_peers = [example_crt key]\<rparr>"

definition djb2 :: "string \<Rightarrow> uint32" where
  "djb2 str = fold (\<lambda>c hash. (push_bit 5 hash + hash) + of_char c) str 5381"

definition example_env :: env where
  "example_env =
     \<lparr>sys_send = (\<lambda>i n. int n),
      sys_recv = (\<lambda>i n. (int n, replicate n 0)),
      tcp_blocks = (\<lambda>i. False),
      sys_select = (\<lambda>i. 1),
      gnutls_record_send = (\<lambda>i n. int n),
      gnutls_record_recv = (\<lambda>i n. (int n, replicate n 0)),
      gnutls_record_check_pending = (\<lambda>i. 0),
      gnutls_error_is_fatal = (\<lambda>e. e < 0 \<and> e \<noteq> -28 \<and> e \<noteq> -52),
      ui_select = (\<lambda>i. False),
      sys_getaddrinfo = (\<lambda>i server port. (0, [example_addr])),
      sys_socket = (\<lambda>i a. 3),
      sys_getnameinfo = (\<lambda>i a. 0),
      sys_connect = (\<lambda>i sock a. 0),
      sys_getsockopt = (\<lambda>i. (0, 87380)),
      g_tcp_port_rdp = 3389,
      gnutls_init = (\<lambda>i. 0),
      gnutls_priority_set_direct = (\<lambda>i. 0),
      gnutls_certificate_allocate_credentials = (\<lambda>i. 0),
      gnutls_credentials_set = (\<lambda>i. 0),
      gnutls_handshake = (\<lambda>i. 0),
      gnutls_certificate_verification_status_print = (\<lambda>i. 0),
      g_tls_session = (\<lambda>i. example_session [1, 2, 3]),
      getenv_HOME = Some ''/home/u'',
      sys_stat = (\<lambda>path. StatMode 0x41ED),
      rd_certcache_mkdir = True,
      utils_djb2_hash = djb2,
      fopen_w = (\<lambda>filename. True),
      b64_uninit = (\<lambda>n. []),
      util_dialog_choice = (\<lambda>message. Some ''no'')\<rparr>"

text \<open>
  A transport that takes half of what it is offered (and the last byte whole), for
  the instance of the send loop below.
\<close>

definition half_env :: env where
  "half_env = example_env\<lparr>sys_send := (\<lambda>i n. if 2 \<le> n then int (n div 2) else int n)\<rparr>"

text \<open>
  Variations of the example: a peer that has closed the connection (every read
  returns 0), the state after a fatal transport failure, a certificate cache that
  is absent and cannot be created, a server that refuses every connection, and a
  session whose certificate is not X.509.
\<close>

definition closed_env :: env where
  "closed_env = example_env\<lparr>sys_recv := (\<lambda>i n. (0, []))\<rparr>"

definition failed_state :: tcp_state where
  "failed_state = initial_state\<lparr>g_network_error := True\<rparr>"

definition nocache_env :: env where
  "nocache_env =
     example_env\<lparr>sys_stat := (\<lambda>path. StatFailed ENOENT), rd_certcache_mkdir := False\<rparr>"


definition openpgp_session :: tls_session where
  "openpgp_session = \<lparr>certificate_type = 2, certificate_peers = []\<rparr>"



definition corrupt_record :: string where
  "corrupt_record = ''1700000000'' @ [CHR 0x0A] @ ''!!!!'' @ [CHR 0x0A]"

definition silent_env :: env where
  "silent_env = example_env\<lparr>util_dialog_choice := (\<lambda>message. None)\<rparr>"

definition stale_env :: env where
  "stale_env = example_env\<lparr>b64_uninit := (\<lambda>n. ''Zm9v'')\<rparr>"


section \<open>Properties of the I/O engine\<close>

lemma transmit_simps [simp]:
  "clock (transmit d t sent st) = Suc (clock st)"
  "wire (transmit d t sent st) = wire st @ take (nat sent) (drop (nat t) d)"
  "waits (transmit d t sent st) = waits st"
  "g_network_error (transmit d t sent st) = g_network_error st"
  "g_ssl_initialized (transmit d t sent st) = g_ssl_initialized st"
  "g_sock (transmit d t sent st) = g_sock st"
  by (simp_all add: transmit_def)

lemma tcp_can_send_simps [simp]:
  "clock (snd (tcp_can_send E sck ms st)) = Suc (clock st)"
  "wire (snd (tcp_can_send E sck ms st)) = wire st"
  "waits (snd (tcp_can_send E sck ms st)) = waits st @ [(ms div 1000, (ms * 1000) mod 1000000)]"
  "g_network_error (snd (tcp_can_send E sck ms st)) = g_network_error st"
  "g_ssl_initialized (snd (tcp_can_send E sck ms st)) = g_ssl_initialized st"
  "g_sock (snd (tcp_can_send E sck ms st)) = g_sock st"
  by (simp_all add: tcp_can_send_def Let_def)

lemma take_take_drop:
  "0 \<le> t \<Longrightarrow> 0 \<le> k \<Longrightarrow> take (nat t) d @ take (nat k) (drop (nat t) d) = take (nat (t + k)) d"
  by (simp add: nat_add_distrib take_add)

lemma tcp_send_loop_all_or_failed:
  assumes c1: "\<forall>i n. gnutls_record_send E i n \<le> int n"
      and c2: "\<forall>i n. sys_send E i n \<le> int n"
  shows "tcp_send_loop E fuel d t st = Some st' \<Longrightarrow> 0 \<le> t \<Longrightarrow> t \<le> int (length d) \<Longrightarrow>
         wire st = w0 @ take (nat t) d \<Longrightarrow> g_network_error st' \<or> wire st' = w0 @ d"
proof (induction fuel arbitrary: t st)
  case 0
  then show ?case by simp
next
  case (Suc fuel)
  show ?case
  proof (cases "t < int (length d)")
    case False
    with Suc.prems show ?thesis by simp
  next
    case True
    define n where "n = nat (int (length d) - t)"
    have n: "int n = int (length d) - t" using True by (simp add: n_def)
    show ?thesis
    proof (cases "g_ssl_initialized st")
      case ssl: True
      define sent where "sent = gnutls_record_send E (clock st) n"
      have le: "sent \<le> int (length d) - t"
        using c1 [rule_format, of "clock st" n] n by (simp add: sent_def)
      show ?thesis
      proof (cases "sent \<le> 0")
        case True
        with Suc.prems \<open>t < int (length d)\<close> ssl show ?thesis
          using Suc.IH [of t "snd (tcp_can_send E (g_sock st) 100 (transmit d t sent st))"]
          by (auto simp: Let_def sent_def n_def split: if_splits)
      next
        case False
        have w: "wire (transmit d t sent st) = w0 @ take (nat (t + sent)) d"
          using False Suc.prems(2,4) by (simp add: take_take_drop)
        from False Suc.prems \<open>t < int (length d)\<close> ssl le w show ?thesis
          using Suc.IH [of "t + sent" "transmit d t sent st"]
          by (auto simp: Let_def sent_def n_def)
      qed
    next
      case plain: False
      define sent where "sent = sys_send E (clock st) n"
      have le: "sent \<le> int (length d) - t"
        using c2 [rule_format, of "clock st" n] n by (simp add: sent_def)
      show ?thesis
      proof (cases "sent \<le> 0")
        case True
        with Suc.prems \<open>t < int (length d)\<close> plain show ?thesis
          using Suc.IH [of t "snd (tcp_can_send E (g_sock st) 100 (transmit d t sent st))"]
          by (auto simp: Let_def sent_def n_def split: if_splits)
      next
        case False
        have w: "wire (transmit d t sent st) = w0 @ take (nat (t + sent)) d"
          using False Suc.prems(2,4) by (simp add: take_take_drop)
        from False Suc.prems \<open>t < int (length d)\<close> plain le w show ?thesis
          using Suc.IH [of "t + sent" "transmit d t sent st"]
          by (auto simp: Let_def sent_def n_def)
      qed
    qed
  qed
qed

lemma drop_split_take:
  "0 \<le> t \<Longrightarrow> 0 \<le> k \<Longrightarrow> take (nat k) (drop (nat t) d) @ drop (nat (t + k)) d = drop (nat t) d"
  by (metis add.commute append_take_drop_id drop_drop nat_add_distrib)

lemma tcp_send_loop_step:
  assumes "t < int (length d)"
      and "sent = (if g_ssl_initialized st
                   then gnutls_record_send E (clock st) (nat (int (length d) - t))
                   else sys_send E (clock st) (nat (int (length d) - t)))"
      and "0 < sent"
  shows "tcp_send_loop E (Suc fuel) d t st = tcp_send_loop E fuel d (t + sent) (transmit d t sent st)"
  using assms by (cases "g_ssl_initialized st") (simp_all add: Let_def)

lemma tcp_send_loop_progress:
  assumes p1: "\<forall>i n. 0 < n \<longrightarrow> 0 < gnutls_record_send E i n \<and> gnutls_record_send E i n \<le> int n"
      and p2: "\<forall>i n. 0 < n \<longrightarrow> 0 < sys_send E i n \<and> sys_send E i n \<le> int n"
  shows "0 \<le> t \<Longrightarrow> t \<le> int (length d) \<Longrightarrow> nat (int (length d) - t) < fuel \<Longrightarrow>
         \<exists>st'. tcp_send_loop E fuel d t st = Some st' \<and> g_network_error st' = g_network_error st \<and>
               wire st' = wire st @ drop (nat t) d \<and> waits st' = waits st"
proof (induction fuel arbitrary: t st)
  case 0
  then show ?case by simp
next
  case (Suc fuel)
  show ?case
  proof (cases "t < int (length d)")
    case False
    with Suc.prems show ?thesis by simp
  next
    case True
    define n where "n = nat (int (length d) - t)"
    have n: "int n = int (length d) - t" "0 < n" using True by (simp_all add: n_def)
    define sent where "sent = (if g_ssl_initialized st then gnutls_record_send E (clock st) n else sys_send E (clock st) n)"
    have s: "0 < sent" "sent \<le> int (length d) - t"
      using p1 [rule_format, of n "clock st"] p2 [rule_format, of n "clock st"] n
      by (auto simp: sent_def)
    have step: "tcp_send_loop E (Suc fuel) d t st = tcp_send_loop E fuel d (t + sent) (transmit d t sent st)"
      using True s(1) by (intro tcp_send_loop_step) (simp_all add: sent_def n_def)
    have "nat (int (length d) - (t + sent)) < fuel" using s Suc.prems by linarith
    moreover have "0 \<le> t + sent" "t + sent \<le> int (length d)" using s Suc.prems by linarith+
    ultimately obtain st' where st': "tcp_send_loop E fuel d (t + sent) (transmit d t sent st) = Some st'"
      "g_network_error st' = g_network_error (transmit d t sent st)"
      "wire st' = wire (transmit d t sent st) @ drop (nat (t + sent)) d"
      "waits st' = waits (transmit d t sent st)"
      using Suc.IH [of "t + sent" "transmit d t sent st"] by blast
    have "take (nat sent) (drop (nat t) d) @ drop (nat (t + sent)) d = drop (nat t) d"
      using s Suc.prems(1) by (intro drop_split_take) simp_all
    with st' step show ?thesis by simp
  qed
qed

text \<open>
  C4. \<^verbatim>\<open>tcp_send\<close> is all-or-failed. The transport never reports more bytes than
  it was offered (the hypothesis). Then: (1) whenever \<^verbatim>\<open>tcp_send\<close> returns, either
  the network-error flag is set or the transport has taken exactly the bytes of the
  buffer, in order; (2) when every write takes at least one byte, even if only a part
  of what remains, and the flag is clear, \<^verbatim>\<open>tcp_send\<close> returns (any fuel above
  the length of the buffer is enough) with the flag clear, the whole buffer
  transmitted and no wait; (3) an iteration whose write would block (on the socket:
  the result -1 with \<^verbatim>\<open>TCP_BLOCKS\<close>; under TLS: a result that is not positive and
  not fatal) waits once in \<^verbatim>\<open>select\<close> with the timeout 0 s 100000 us and goes on
  with the same \<open>total\<close> and nothing added to the wire.
\<close>

theorem tcp_send_all_or_failed:
  assumes "\<forall>i n. gnutls_record_send E i n \<le> int n \<and> sys_send E i n \<le> int n"
  shows "(\<forall>fuel st'. tcp_send E fuel s st = Some st' \<longrightarrow>
            g_network_error st' \<or> wire st' = wire st @ s_data s) \<and>
         ((\<forall>i n. 0 < n \<longrightarrow> 0 < gnutls_record_send E i n \<and> 0 < sys_send E i n) \<and>
          \<not> g_network_error st \<longrightarrow>
            (\<forall>fuel. length (s_data s) < fuel \<longrightarrow>
               (\<exists>st'. tcp_send E fuel s st = Some st' \<and> \<not> g_network_error st' \<and>
                      wire st' = wire st @ s_data s \<and> waits st' = waits st))) \<and>
         (\<forall>fuel d t. t < int (length d) \<and>
            (if g_ssl_initialized st
             then gnutls_record_send E (clock st) (nat (int (length d) - t)) \<le> 0 \<and>
                  \<not> gnutls_error_is_fatal E (gnutls_record_send E (clock st) (nat (int (length d) - t)))
             else sys_send E (clock st) (nat (int (length d) - t)) = -1 \<and> tcp_blocks E (clock st)) \<longrightarrow>
            tcp_send_loop E (Suc fuel) d t st =
              tcp_send_loop E fuel d t
                (st\<lparr>clock := clock st + 2, waits := waits st @ [(0, 100000)]\<rparr>))"
proof (intro conjI allI impI)
  fix fuel st'
  assume r: "tcp_send E fuel s st = Some st'"
  show "g_network_error st' \<or> wire st' = wire st @ s_data s"
  proof (cases "g_network_error st")
    case True
    with r show ?thesis by (simp add: tcp_send_def)
  next
    case False
    with r have "tcp_send_loop E fuel (s_data s) 0 st = Some st'" by (simp add: tcp_send_def)
    from tcp_send_loop_all_or_failed [OF _ _ this, of "wire st"] assms show ?thesis by simp
  qed
next
  fix fuel
  assume p: "(\<forall>i n. 0 < n \<longrightarrow> 0 < gnutls_record_send E i n \<and> 0 < sys_send E i n) \<and>
             \<not> g_network_error st"
     and f: "length (s_data s) < fuel"
  have "\<exists>st'. tcp_send_loop E fuel (s_data s) 0 st = Some st' \<and>
             g_network_error st' = g_network_error st \<and>
             wire st' = wire st @ drop (nat 0) (s_data s) \<and> waits st' = waits st"
    using p assms f by (intro tcp_send_loop_progress) auto
  with p show "\<exists>st'. tcp_send E fuel s st = Some st' \<and> \<not> g_network_error st' \<and>
                 wire st' = wire st @ s_data s \<and> waits st' = waits st"
    by (simp add: tcp_send_def)
next
  fix fuel and d :: "uint8 list" and t
  assume "t < int (length d) \<and>
            (if g_ssl_initialized st
             then gnutls_record_send E (clock st) (nat (int (length d) - t)) \<le> 0 \<and>
                  \<not> gnutls_error_is_fatal E (gnutls_record_send E (clock st) (nat (int (length d) - t)))
             else sys_send E (clock st) (nat (int (length d) - t)) = -1 \<and> tcp_blocks E (clock st))"
  then show "tcp_send_loop E (Suc fuel) d t st =
              tcp_send_loop E fuel d t
                (st\<lparr>clock := clock st + 2, waits := waits st @ [(0, 100000)]\<rparr>)"
    by (cases "g_ssl_initialized st") (simp_all add: Let_def transmit_def tcp_can_send_def)
qed

theorem tcp_send_all_or_failed_witness:
  "\<exists>st'. tcp_send half_env 5 \<lparr>s_data = [1, 2, 3, 4], s_p = 0, s_size = 4096\<rparr> initial_state = Some st' \<and>
         \<not> g_network_error st' \<and> wire st' = [1, 2, 3, 4] \<and> clock st' = 3"
proof -
  have c: "\<forall>i n. gnutls_record_send half_env i n \<le> int n \<and> sys_send half_env i n \<le> int n"
    by (simp add: half_env_def example_env_def)
  have p: "(\<forall>i n. 0 < n \<longrightarrow> 0 < gnutls_record_send half_env i n \<and> 0 < sys_send half_env i n) \<and>
           \<not> g_network_error initial_state"
    by (auto simp: half_env_def example_env_def initial_state_def)
  from tcp_send_all_or_failed [OF c, of "\<lparr>s_data = [1, 2, 3, 4], s_p = 0, s_size = 4096\<rparr>" initial_state] p
  have "\<exists>st'. tcp_send half_env 5 \<lparr>s_data = [1, 2, 3, 4], s_p = 0, s_size = 4096\<rparr> initial_state = Some st' \<and>
         \<not> g_network_error st' \<and> wire st' = wire initial_state @ [1, 2, 3, 4] \<and> waits st' = waits initial_state"
    by simp
  then obtain st' where st': "tcp_send half_env 5 \<lparr>s_data = [1, 2, 3, 4], s_p = 0, s_size = 4096\<rparr> initial_state = Some st'"
    "\<not> g_network_error st'" "wire st' = wire initial_state @ [1, 2, 3, 4]" by blast
  have "map_option clock (tcp_send half_env 5 \<lparr>s_data = [1, 2, 3, 4], s_p = 0, s_size = 4096\<rparr> initial_state) = Some 3"
    by code_simp
  with st' show ?thesis by (simp add: initial_state_def)
qed

subsection \<open>Failures of a receive\<close>

lemma tcp_recv_ui_simps [simp]:
  "g_ssl_initialized (snd (tcp_recv_ui E st)) = g_ssl_initialized st"
  "g_network_error (snd (tcp_recv_ui E st)) = g_network_error st"
  "wire (snd (tcp_recv_ui E st)) = wire st"
  by (simp_all add: tcp_recv_ui_def Let_def)

lemma tcp_recv_ui_exit: "fst (tcp_recv_ui E st) \<Longrightarrow> g_exit_mainloop (snd (tcp_recv_ui E st))"
  by (simp add: tcp_recv_ui_def Let_def split: if_splits)

lemma tcp_recv_loop_null:
  "tcp_recv_loop E fuel s len st = Some (False, s', st') \<Longrightarrow>
     g_network_error st' \<or> g_exit_mainloop st' \<or>
     (\<not> g_ssl_initialized st' \<and> (\<exists>n. fst (sys_recv E (clock st' - 1) n) = 0))"
proof (induction fuel arbitrary: s len st)
  case 0
  then show ?case by simp
next
  case (Suc fuel)
  show ?case
  proof (cases "0 < len")
    case False
    with Suc.prems show ?thesis by simp
  next
    case True
    show ?thesis
    proof (cases "fst (tcp_recv_ui E st)")
      case True
      with Suc.prems \<open>0 < len\<close> tcp_recv_ui_exit [of E st] show ?thesis by auto
    next
      case False
      with Suc.prems \<open>0 < len\<close> Suc.IH show ?thesis
        by (auto simp: Let_def split: if_splits)
    qed
  qed
qed

lemma tcp_recv_loop_ok_flag:
  "tcp_recv_loop E fuel s len st = Some (True, s', st') \<Longrightarrow> g_network_error st' = g_network_error st"
proof (induction fuel arbitrary: s len st)
  case 0
  then show ?case by simp
next
  case (Suc fuel)
  show ?case
  proof (cases "0 < len")
    case False
    with Suc.prems show ?thesis by simp
  next
    case True
    with Suc.prems Suc.IH show ?thesis
      by (fastforce simp: Let_def split: if_splits)
  qed
qed

text \<open>
  C5 (amended). A read of zero bytes on the plaintext socket makes \<^verbatim>\<open>tcp_recv\<close>
  return \<^verbatim>\<open>NULL\<close> and leaves the network-error flag as it was. The flag is set,
  with \<^verbatim>\<open>NULL\<close> returned, by a negative \<^verbatim>\<open>recv\<close> that is not a would-block and
  by a fatal GnuTLS error of a read; in \<^verbatim>\<open>tcp_send\<close> it is set by a result of
  \<^verbatim>\<open>send\<close> that is not positive and not a would-block and by a fatal GnuTLS error
  of a write. Whenever the receive loop returns \<^verbatim>\<open>NULL\<close>, the flag is set, or the
  main loop was asked to exit, or the last call was a plaintext read of zero bytes.
\<close>

theorem tcp_recv_zero_read_keeps_flag:
  "(0 < len \<and> \<not> fst (tcp_recv_ui E st) \<and> \<not> g_ssl_initialized st \<and>
    fst (sys_recv E (clock (snd (tcp_recv_ui E st))) (unat len)) = 0 \<longrightarrow>
      (\<exists>st'. tcp_recv_loop E (Suc fuel) s len st = Some (False, s, st') \<and>
             g_network_error st' = g_network_error st)) \<and>
   (0 < len \<and> \<not> fst (tcp_recv_ui E st) \<and> \<not> g_ssl_initialized st \<and>
    fst (sys_recv E (clock (snd (tcp_recv_ui E st))) (unat len)) < 0 \<and>
    \<not> (fst (sys_recv E (clock (snd (tcp_recv_ui E st))) (unat len)) = -1 \<and>
       tcp_blocks E (clock (snd (tcp_recv_ui E st)))) \<longrightarrow>
      (\<exists>st'. tcp_recv_loop E (Suc fuel) s len st = Some (False, s, st') \<and> g_network_error st')) \<and>
   (0 < len \<and> \<not> fst (tcp_recv_ui E st) \<and> g_ssl_initialized st \<and>
    fst (gnutls_record_recv E (clock (snd (tcp_recv_ui E st))) (unat len)) < 0 \<and>
    gnutls_error_is_fatal E (fst (gnutls_record_recv E (clock (snd (tcp_recv_ui E st))) (unat len))) \<longrightarrow>
      (\<exists>st'. tcp_recv_loop E (Suc fuel) s len st = Some (False, s, st') \<and> g_network_error st')) \<and>
   (t < int (length d) \<and> \<not> g_ssl_initialized st \<and>
    sys_send E (clock st) (nat (int (length d) - t)) \<le> 0 \<and>
    \<not> (sys_send E (clock st) (nat (int (length d) - t)) = -1 \<and> tcp_blocks E (clock st)) \<longrightarrow>
      (\<exists>st'. tcp_send_loop E (Suc fuel) d t st = Some st' \<and> g_network_error st')) \<and>
   (t < int (length d) \<and> g_ssl_initialized st \<and>
    gnutls_record_send E (clock st) (nat (int (length d) - t)) \<le> 0 \<and>
    gnutls_error_is_fatal E (gnutls_record_send E (clock st) (nat (int (length d) - t))) \<longrightarrow>
      (\<exists>st'. tcp_send_loop E (Suc fuel) d t st = Some st' \<and> g_network_error st')) \<and>
   (\<forall>n s' st'. tcp_recv_loop E n s len st = Some (False, s', st') \<longrightarrow>
      g_network_error st' \<or> g_exit_mainloop st' \<or>
      (\<not> g_ssl_initialized st' \<and> (\<exists>k. fst (sys_recv E (clock st' - 1) k) = 0)))"
  using tcp_recv_loop_null [of E _ s len st] by (simp add: Let_def)

theorem tcp_recv_zero_read_keeps_flag_witness:
  "\<exists>st'. tcp_recv_loop closed_env (Suc 0) empty_stream 4 initial_state = Some (False, empty_stream, st') \<and>
         g_network_error st' = g_network_error initial_state"
proof -
  have "0 < (4 :: uint32) \<and> \<not> fst (tcp_recv_ui closed_env initial_state) \<and>
        \<not> g_ssl_initialized initial_state \<and>
        fst (sys_recv closed_env (clock (snd (tcp_recv_ui closed_env initial_state))) (unat (4 :: uint32))) = 0"
    by (simp add: closed_env_def example_env_def initial_state_def tcp_recv_ui_def)
  with tcp_recv_zero_read_keeps_flag [of 4 closed_env initial_state 0 empty_stream]
  show ?thesis by blast
qed

text \<open>
  The claim as stated fails where the peer has closed the plaintext connection:
  \<^verbatim>\<open>tcp_recv\<close> returns \<^verbatim>\<open>NULL\<close> and the flag is still clear.
\<close>

theorem tcp_recv_zero_read_counterexample:
  "map_option (\<lambda>(r, st). (r, g_network_error st)) (tcp_recv closed_env 1 None 4 initial_state) =
     Some (None, False)"
  by code_simp

text \<open>
  C10. \<^verbatim>\<open>tcp_is_connected\<close> returns \<^verbatim>\<open>True\<close> exactly when \<^verbatim>\<open>getpeername\<close> on
  \<^verbatim>\<open>g_sock\<close> returns a nonzero value, that is, exactly when the socket has no
  connected peer: its result is the negation of the has-a-connected-peer test.
\<close>

theorem tcp_is_connected_negates:
  "tcp_is_connected st = (getpeername st (g_sock st) \<noteq> 0) \<and>
   tcp_is_connected st = (peers st (g_sock st) = None)"
  by (simp add: tcp_is_connected_def getpeername_def split: option.split)

section \<open>Properties of the connection manager\<close>

lemma tcp_connect_loop_frame:
  "tcp_connect_loop E res st = (e, st') \<Longrightarrow>
     g_network_error st' = g_network_error st \<and> resolved st' = resolved st \<and>
     g_server_address st' = g_server_address st \<and> g_last_server_name st' = g_last_server_name st \<and>
     wire st' = wire st \<and> files st' = files st"
proof (induction res arbitrary: st)
  case Nil
  then show ?case by simp
next
  case (Cons addr rest)
  then show ?case
    by (auto simp: Let_def split: if_splits)
qed

lemma tcp_connect_setup_frame [simp]:
  "g_network_error (tcp_connect_setup E st) = g_network_error st"
  "resolved (tcp_connect_setup E st) = resolved st"
  "g_server_address (tcp_connect_setup E st) = g_server_address st"
  "g_last_server_name (tcp_connect_setup E st) = g_last_server_name st"
  "wire (tcp_connect_setup E st) = wire st"
  "g_sock (tcp_connect_setup E st) = g_sock st"
  "peers (tcp_connect_setup E st) = peers st"
  by (simp_all add: tcp_connect_setup_def Let_def)

lemma tcp_connect_flag:
  "tcp_connect E server st = Inr (ok, st') \<Longrightarrow> g_network_error st' = g_network_error st \<and> wire st' = wire st"
  unfolding tcp_connect_def Let_def
  by (auto split: if_splits prod.splits connect_loop_end.splits dest!: tcp_connect_loop_frame)











section \<open>The network-error flag across the layer\<close>

lemma cert_tdb_verify_frame:
  "cert_tdb_verify E db host service key st = (rv, st') \<Longrightarrow>
     g_network_error st' = g_network_error st \<and> wire st' = wire st \<and> shown st' = shown st \<and>
     clock st' = clock st \<and> g_ssl_initialized st' = g_ssl_initialized st"
  by (auto simp: cert_tdb_verify_def unlink_def Let_def split: option.splits prod.splits if_splits)

lemma cert_tdb_store_frame:
  "cert_tdb_store E db host service exp key st = Inr (rv, st') \<Longrightarrow>
     g_network_error st' = g_network_error st \<and> wire st' = wire st \<and> shown st' = shown st \<and>
     clock st' = clock st \<and> g_ssl_initialized st' = g_ssl_initialized st"
  by (auto simp: cert_tdb_store_def Let_def split: if_splits)

lemma gnutls_verify_stored_pubkey_frame:
  "gnutls_verify_stored_pubkey E db host service cert st = (rv, st') \<Longrightarrow>
     g_network_error st' = g_network_error st \<and> wire st' = wire st \<and> shown st' = shown st \<and>
     clock st' = clock st \<and> g_ssl_initialized st' = g_ssl_initialized st"
  by (auto simp: gnutls_verify_stored_pubkey_def split: prod.splits dest!: cert_tdb_verify_frame)

lemma gnutls_store_pubkey_frame:
  "gnutls_store_pubkey E db host service cert exp st = Inr (rv, st') \<Longrightarrow>
     g_network_error st' = g_network_error st \<and> wire st' = wire st \<and> shown st' = shown st \<and>
     clock st' = clock st \<and> g_ssl_initialized st' = g_ssl_initialized st"
  by (auto simp: gnutls_store_pubkey_def split: sum.splits prod.splits dest!: cert_tdb_store_frame)

lemma check_cert_lookup_flag:
  "check_cert_lookup E dir name cert st = Inr (rc, st') \<Longrightarrow>
     g_network_error st' = g_network_error st \<and> wire st' = wire st \<and>
     g_ssl_initialized st' = g_ssl_initialized st"
  unfolding check_cert_lookup_def Let_def
  by (auto split: prod.splits sum.splits if_splits option.splits
           dest!: gnutls_verify_stored_pubkey_frame gnutls_store_pubkey_frame)

lemma check_cert_flag:
  "check_cert E session st = Inr (rc, st') \<Longrightarrow>
     g_network_error st' = g_network_error st \<and> wire st' = wire st \<and>
     g_ssl_initialized st' = g_ssl_initialized st"
  unfolding check_cert_def Let_def
  by (auto split: option.splits if_splits list.splits dest!: check_cert_lookup_flag)

lemma handshake_loop_frame:
  "handshake_loop E fuel st = Some (err, st') \<Longrightarrow>
     g_network_error st' = g_network_error st \<and> wire st' = wire st \<and>
     g_ssl_initialized st' = g_ssl_initialized st \<and> files st' = files st \<and> shown st' = shown st"
  by (induction fuel arbitrary: st) (auto simp: Let_def split: if_splits)

lemma tls_setup_frame:
  "tls_setup E st = Inr st' \<Longrightarrow>
     g_network_error st' = g_network_error st \<and> wire st' = wire st \<and> g_ssl_initialized st' \<and>
     files st' = files st \<and> shown st' = shown st"
  by (auto simp: tls_setup_def Let_def split: if_splits)

lemma tcp_tls_connect_flag:
  "tcp_tls_connect E fuel st = Some (Inr (ok, st')) \<Longrightarrow>
     g_network_error st' = g_network_error st \<and> wire st' = wire st"
  unfolding tcp_tls_connect_def Let_def
  by (auto split: sum.splits option.splits prod.splits if_splits
           dest!: tls_setup_frame handshake_loop_frame check_cert_flag)

text \<open>
  C6 (amended). Once the network-error flag is set, \<^verbatim>\<open>tcp_send\<close> and
  \<^verbatim>\<open>tcp_recv\<close> return at once, the latter with \<^verbatim>\<open>NULL\<close>, and leave the whole
  state as it is: no transport operation is attempted. No operation of the layer
  clears the flag: it is still set after \<^verbatim>\<open>tcp_connect\<close>, \<^verbatim>\<open>tcp_tls_connect\<close>,
  \<^verbatim>\<open>tcp_disconnect\<close>, \<^verbatim>\<open>tcp_reset_state\<close> and \<^verbatim>\<open>tcp_run_ui\<close>, so the
  short circuit lasts until code outside \<^verbatim>\<open>tcp.c\<close> resets the variable.
\<close>

theorem network_error_short_circuits:
  assumes "g_network_error st"
  shows "tcp_send E fuel s st = Some st \<and>
         tcp_recv E fuel r len st = Some (None, st) \<and>
         (\<forall>ok st'. tcp_connect E server st = Inr (ok, st') \<longrightarrow>
            g_network_error st' \<and> wire st' = wire st) \<and>
         (\<forall>ok st'. tcp_tls_connect E fuel st = Some (Inr (ok, st')) \<longrightarrow>
            g_network_error st' \<and> wire st' = wire st) \<and>
         g_network_error (tcp_disconnect st) \<and>
         g_network_error (tcp_reset_state st) \<and>
         g_network_error (tcp_run_ui run st)"
proof (intro conjI allI impI)
  show "tcp_send E fuel s st = Some st" using assms by (simp add: tcp_send_def)
  show "tcp_recv E fuel r len st = Some (None, st)" using assms by (simp add: tcp_recv_def)
  show "g_network_error (tcp_disconnect st)" using assms by (simp add: tcp_disconnect_def Let_def)
  show "g_network_error (tcp_reset_state st)" using assms by (simp add: tcp_reset_state_def)
  show "g_network_error (tcp_run_ui run st)" using assms by (simp add: tcp_run_ui_def)
next
  fix ok st'
  assume "tcp_connect E server st = Inr (ok, st')"
  from tcp_connect_flag [OF this] assms
  show "g_network_error st'" and "wire st' = wire st" by simp_all
next
  fix ok st'
  assume "tcp_tls_connect E fuel st = Some (Inr (ok, st'))"
  from tcp_tls_connect_flag [OF this] assms
  show "g_network_error st'" and "wire st' = wire st" by simp_all
qed

theorem network_error_short_circuits_witness:
  "tcp_send example_env 5 \<lparr>s_data = [1, 2, 3, 4], s_p = 0, s_size = 4096\<rparr> failed_state = Some failed_state \<and>
   tcp_recv example_env 5 None 4 failed_state = Some (None, failed_state)"
proof -
  have "g_network_error failed_state" by (simp add: failed_state_def initial_state_def)
  from network_error_short_circuits [OF this] show ?thesis by blast
qed

text \<open>
  The claim as stated fails at the reconnect: \<^verbatim>\<open>tcp_connect\<close> succeeds and the flag
  is still set, so the following \<^verbatim>\<open>tcp_send\<close> transmits nothing and the following
  \<^verbatim>\<open>tcp_recv\<close> returns \<^verbatim>\<open>NULL\<close>.
\<close>

theorem reconnect_keeps_network_error_counterexample:
  "(case tcp_connect example_env ''server'' failed_state of
      Inl h \<Rightarrow> False
    | Inr (ok, st1) \<Rightarrow>
        ok \<and> g_network_error st1 \<and>
        map_option wire (tcp_send example_env 5 \<lparr>s_data = [1, 2, 3, 4], s_p = 0, s_size = 4096\<rparr> st1) = Some [] \<and>
        map_option fst (tcp_recv example_env 5 None 4 st1) = Some None)"
  by code_simp

section \<open>Properties of the TLS session\<close>

lemma handshake_loop_result:
  "handshake_loop E fuel st = Some (err, st') \<Longrightarrow> 0 \<le> err \<or> gnutls_error_is_fatal E err"
  by (induction fuel arbitrary: st) (auto simp: Let_def split: if_splits)

lemma cert_tdb_store_not_exit: "cert_tdb_store E db host service exp key st \<noteq> Inl (Exited n)"
  by (simp add: cert_tdb_store_def Let_def)

lemma gnutls_store_pubkey_not_exit:
  "gnutls_store_pubkey E db host service cert exp st \<noteq> Inl (Exited n)"
  using cert_tdb_store_not_exit [of E db host service exp "crt_pubkey cert" st n]
  by (auto simp: gnutls_store_pubkey_def split: sum.splits)

lemma check_cert_lookup_not_exit: "check_cert_lookup E dir name cert st \<noteq> Inl (Exited n)"
  unfolding check_cert_lookup_def Let_def
  using gnutls_store_pubkey_not_exit [of E dir name "''rdesktop''" cert "crt_expiration cert" _ n]
  by (auto split: prod.splits sum.splits option.splits)

lemma check_cert_not_exit: "check_cert E session st \<noteq> Inl (Exited n)"
  unfolding check_cert_def Let_def
  using check_cert_lookup_not_exit [of E _ _ _ st n]
  by (auto split: option.splits list.splits)

lemma tls_setup_not_exit: "tls_setup E st \<noteq> Inl (Exited n)"
  by (simp add: tls_setup_def Let_def)

text \<open>
  C3 (amended). After a successful handshake, a failure of the certificate trust
  check (\<^verbatim>\<open>check_cert\<close> returning nonzero) ends the process with
  \<^verbatim>\<open>exit(1)\<close>: nothing is returned to the caller, and the session is not torn
  down (\<^verbatim>\<open>g_ssl_initialized\<close> is still set in the state the process exits from,
  which is the state \<^verbatim>\<open>check_cert\<close> left). The process exits in no other way.
  \<^verbatim>\<open>tcp_tls_connect\<close> returns \<^verbatim>\<open>False\<close> only after a handshake that failed
  with a fatal error, with the session torn down.
\<close>

theorem tcp_tls_connect_trust_failure_exits:
  "(tls_setup E st = Inr st1 \<and> handshake_loop E fuel st1 = Some (err, st2) \<and> 0 \<le> err \<and>
    check_cert E (g_tls_session E (clock st2)) st2 = Inr (rc, st3) \<and> rc \<noteq> 0 \<longrightarrow>
      tcp_tls_connect E fuel st = Some (Inl (Exited 1, st3)) \<and> g_ssl_initialized st3) \<and>
   (\<forall>n st'. tcp_tls_connect E fuel st = Some (Inl (Exited n, st')) \<longrightarrow>
      n = 1 \<and> g_ssl_initialized st' \<and>
      (\<exists>st1 err st2 rc. tls_setup E st = Inr st1 \<and> handshake_loop E fuel st1 = Some (err, st2) \<and>
         0 \<le> err \<and> check_cert E (g_tls_session E (clock st2)) st2 = Inr (rc, st') \<and> rc \<noteq> 0)) \<and>
   (\<forall>st'. tcp_tls_connect E fuel st = Some (Inr (False, st')) \<longrightarrow>
      \<not> g_ssl_initialized st' \<and>
      (\<exists>st1 err st2. tls_setup E st = Inr st1 \<and> handshake_loop E fuel st1 = Some (err, st2) \<and>
         err < 0 \<and> gnutls_error_is_fatal E err))"
proof (intro conjI allI impI)
  assume a: "tls_setup E st = Inr st1 \<and> handshake_loop E fuel st1 = Some (err, st2) \<and> 0 \<le> err \<and>
    check_cert E (g_tls_session E (clock st2)) st2 = Inr (rc, st3) \<and> rc \<noteq> 0"
  then show "tcp_tls_connect E fuel st = Some (Inl (Exited 1, st3))"
    by (simp add: tcp_tls_connect_def)
  from a tls_setup_frame [of E st st1] handshake_loop_frame [of E fuel st1 err st2]
    check_cert_flag [of E "g_tls_session E (clock st2)" st2 rc st3]
  show "g_ssl_initialized st3" by simp
next
  fix n st'
  assume r: "tcp_tls_connect E fuel st = Some (Inl (Exited n, st'))"
  from r tls_setup_not_exit [of E st n] obtain st1 where s: "tls_setup E st = Inr st1"
    by (auto simp: tcp_tls_connect_def split: sum.splits)
  with r obtain err st2 where h: "handshake_loop E fuel st1 = Some (err, st2)"
    by (auto simp: tcp_tls_connect_def split: option.splits)
  from r s h have pos: "0 \<le> err"
    by (auto simp: tcp_tls_connect_def Let_def split: if_splits)
  from r s h pos check_cert_not_exit [of E "g_tls_session E (clock st2)" st2 n]
  obtain rc where c: "check_cert E (g_tls_session E (clock st2)) st2 = Inr (rc, st')" "rc \<noteq> 0" "n = 1"
    by (auto simp: tcp_tls_connect_def split: sum.splits if_splits)
  show "n = 1" by (rule c(3))
  from tls_setup_frame [OF s] handshake_loop_frame [OF h] check_cert_flag [OF c(1)]
  show "g_ssl_initialized st'" by simp
  from s h pos c
  show "\<exists>st1 err st2 rc. tls_setup E st = Inr st1 \<and> handshake_loop E fuel st1 = Some (err, st2) \<and>
         0 \<le> err \<and> check_cert E (g_tls_session E (clock st2)) st2 = Inr (rc, st') \<and> rc \<noteq> 0"
    by blast
next
  fix st'
  assume r: "tcp_tls_connect E fuel st = Some (Inr (False, st'))"
  then obtain st1 where s: "tls_setup E st = Inr st1"
    by (auto simp: tcp_tls_connect_def split: sum.splits)
  with r obtain err st2 where h: "handshake_loop E fuel st1 = Some (err, st2)"
    by (auto simp: tcp_tls_connect_def split: option.splits)
  from r s h have neg: "err < 0"
    by (auto simp: tcp_tls_connect_def Let_def split: if_splits sum.splits prod.splits)
  with handshake_loop_result [OF h] have fatal: "gnutls_error_is_fatal E err" by auto
  from r s h neg show "\<not> g_ssl_initialized st'"
    by (auto simp: tcp_tls_connect_def Let_def split: if_splits)
  from s h neg fatal
  show "\<exists>st1 err st2. tls_setup E st = Inr st1 \<and> handshake_loop E fuel st1 = Some (err, st2) \<and>
         err < 0 \<and> gnutls_error_is_fatal E err" by blast
qed

theorem tcp_tls_connect_trust_failure_exits_witness:
  "\<exists>st'. tcp_tls_connect nocache_env (Suc 0) initial_state = Some (Inl (Exited 1, st')) \<and>
         g_ssl_initialized st'"
proof -
  define st1 where "st1 = initial_state\<lparr>clock := 4, g_ssl_initialized := True\<rparr>"
  define st2 where "st2 = st1\<lparr>clock := 5\<rparr>"
  have a: "tls_setup nocache_env initial_state = Inr st1"
    by (simp add: tls_setup_def nocache_env_def example_env_def initial_state_def st1_def Let_def)
  have b: "handshake_loop nocache_env (Suc 0) st1 = Some (0, st2)"
    by (simp add: nocache_env_def example_env_def st1_def st2_def Let_def)
  have c: "check_cert nocache_env (g_tls_session nocache_env (clock st2)) st2 = Inr (1, st2)"
    by (simp add: check_cert_def nocache_env_def example_env_def certcache_bail_def)
  note t = tcp_tls_connect_trust_failure_exits
    [of nocache_env initial_state st1 "Suc 0" 0 st2 1 st2, THEN conjunct1, rule_format]
  have "tcp_tls_connect nocache_env (Suc 0) initial_state = Some (Inl (Exited 1, st2)) \<and>
        g_ssl_initialized st2"
    using a b c by (intro t conjI) simp_all
  then show ?thesis by blast
qed

text \<open>
  The claim as stated fails where the operator declines a changed key: the key
  \<open>[9, 9, 9]\<close> is stored for the identity, the server then presents \<open>[1, 2, 3]\<close>,
  the operator answers no, and \<^verbatim>\<open>tcp_tls_connect\<close> does not return \<^verbatim>\<open>False\<close>:
  the process exits with status 1, the session still set up.
\<close>

theorem tcp_tls_connect_refused_key_counterexample:
  "(case check_cert example_env (example_session [9, 9, 9]) initial_state of
      Inl h \<Rightarrow> False
    | Inr (rc, st) \<Rightarrow>
        rc = 0 \<and>
        (case tcp_tls_connect example_env 1 st of
           Some (Inl (Exited status, st')) \<Rightarrow> status = 1 \<and> g_ssl_initialized st'
         | _ \<Rightarrow> False))"
  by code_simp

section \<open>Properties of the trust store\<close>

text \<open>
  C9 (amended). When the check of the cache directory does not bail (or
  \<^verbatim>\<open>HOME\<close> is not set), \<^verbatim>\<open>check_cert\<close> returns 0 and leaves the state as it is
  (no file read, written or removed, no prompt) whenever the certificate type of the
  session is not X.509 or the peer's certificate list is empty.
\<close>

theorem check_cert_passes_without_x509:
  assumes "case getenv_HOME E of None \<Rightarrow> True | Some home \<Rightarrow> \<not> certcache_bail E (certcache_dir home)"
      and "certificate_type session \<noteq> GNUTLS_CRT_X509 \<or> certificate_peers session = []"
  shows "check_cert E session st = Inr (0, st)"
  using assms by (auto simp: check_cert_def split: option.splits)

theorem check_cert_passes_without_x509_witness:
  "check_cert example_env openpgp_session initial_state = Inr (0, initial_state)"
proof -
  have a: "case getenv_HOME example_env of None \<Rightarrow> True
           | Some home \<Rightarrow> \<not> certcache_bail example_env (certcache_dir home)"
    by (simp add: example_env_def certcache_bail_def S_IFMT_def S_IFDIR_def)
  have b: "certificate_type openpgp_session \<noteq> GNUTLS_CRT_X509 \<or> certificate_peers openpgp_session = []"
    by (simp add: openpgp_session_def)
  from check_cert_passes_without_x509 [OF a b] show ?thesis .
qed

text \<open>
  The claim as stated fails where the cache directory is absent (\<^verbatim>\<open>stat\<close> fails
  with \<^verbatim>\<open>ENOENT\<close>) and \<^verbatim>\<open>rd_certcache_mkdir\<close> cannot create it:
  \<^verbatim>\<open>check_cert\<close> returns 1 for a session that is not X.509.
\<close>

theorem check_cert_bails_without_x509_counterexample:
  "(case check_cert nocache_env openpgp_session initial_state of
      Inl h \<Rightarrow> False
    | Inr (rc, st) \<Rightarrow> rc = 1)"
  by code_simp

lemma unlink_unlink [simp]: "unlink f (unlink f st) = unlink f st"
  by (simp add: unlink_def)

lemma files_unlink [simp]: "files (unlink f st) f = None"
  by (simp add: unlink_def)

text \<open>
  C2 (amended). For a record file that is present: when it is empty (no
  expiration line) or holds a single line (no key line), \<^verbatim>\<open>cert_tdb_verify\<close>
  answers as for a missing file, \<^verbatim>\<open>GNUTLS_E_NO_CERTIFICATE_FOUND\<close>, and removes the
  file; when its key line fails base64 decoding, the file is removed as well but the
  answer is \<^verbatim>\<open>GNUTLS_E_CERTIFICATE_KEY_MISMATCH\<close>.
\<close>

theorem cert_tdb_verify_malformed:
  assumes "files st (cert_store_cache_filename E db_name host 4096) = Some content"
  shows "cert_tdb_verify E db_name host service pubkey
           (unlink (cert_store_cache_filename E db_name host 4096) st) =
           (GNUTLS_E_NO_CERTIFICATE_FOUND, unlink (cert_store_cache_filename E db_name host 4096) st) \<and>
         (content = [] \<longrightarrow>
            cert_tdb_verify E db_name host service pubkey st =
              (GNUTLS_E_NO_CERTIFICATE_FOUND, unlink (cert_store_cache_filename E db_name host 4096) st)) \<and>
         (\<forall>line. fgets 4096 content = Some (line, []) \<longrightarrow>
            cert_tdb_verify E db_name host service pubkey st =
              (GNUTLS_E_NO_CERTIFICATE_FOUND, unlink (cert_store_cache_filename E db_name host 4096) st)) \<and>
         (\<forall>line rest buf rest'.
            fgets 4096 content = Some (line, rest) \<and> fgets 4096 rest = Some (buf, rest') \<and>
            base64_decode_update base64_decode_init (c_str buf) = None \<longrightarrow>
            cert_tdb_verify E db_name host service pubkey st =
              (GNUTLS_E_CERTIFICATE_KEY_MISMATCH, unlink (cert_store_cache_filename E db_name host 4096) st))"
  using assms by (simp add: cert_tdb_verify_def fgets_def)

theorem cert_tdb_verify_malformed_witness:
  "cert_tdb_verify example_env ''/c'' ''host'' ''rdesktop'' [1, 2, 3]
     (initial_state\<lparr>files := [cert_store_cache_filename example_env ''/c'' ''host'' 4096 \<mapsto> ''1700000000'']\<rparr>) =
   (GNUTLS_E_NO_CERTIFICATE_FOUND,
    unlink (cert_store_cache_filename example_env ''/c'' ''host'' 4096)
     (initial_state\<lparr>files := [cert_store_cache_filename example_env ''/c'' ''host'' 4096 \<mapsto> ''1700000000'']\<rparr>))"
proof -
  have f: "files (initial_state\<lparr>files := [cert_store_cache_filename example_env ''/c'' ''host'' 4096 \<mapsto> ''1700000000'']\<rparr>)
             (cert_store_cache_filename example_env ''/c'' ''host'' 4096) = Some ''1700000000''"
    by simp
  have g: "fgets 4096 ''1700000000'' = Some (''1700000000'', [])"
    by code_simp
  from cert_tdb_verify_malformed [OF f, of "''rdesktop''" "[1, 2, 3]"] g show ?thesis by blast
qed

text \<open>
  The claim as stated fails for a key line that is not base64: the answer is the
  key mismatch, not the answer for a missing file (lines 184-189).
\<close>

theorem cert_tdb_verify_undecodable_counterexample:
  "(case cert_tdb_verify example_env ''/c'' ''host'' ''rdesktop'' [1, 2, 3]
          (initial_state\<lparr>files := [cert_store_cache_filename example_env ''/c'' ''host'' 4096 \<mapsto> corrupt_record]\<rparr>) of
      (rv, st) \<Rightarrow>
        rv = GNUTLS_E_CERTIFICATE_KEY_MISMATCH \<and> rv \<noteq> GNUTLS_E_NO_CERTIFICATE_FOUND \<and>
        files st (cert_store_cache_filename example_env ''/c'' ''host'' 4096) = None)"
  by code_simp

text \<open>
  C8. The prompt's answer is compared with \<^verbatim>\<open>strcmp\<close> before it is tested for
  \<^verbatim>\<open>NULL\<close> (line 561). With the key \<open>[9, 9, 9]\<close> stored for the identity, a
  server presenting \<open>[1, 2, 3]\<close> and no answer from the operator, \<^verbatim>\<open>check_cert\<close>
  does not reach \<^verbatim>\<open>bail\<close>: it dereferences the null pointer.
\<close>

theorem check_cert_absent_answer_dereferenced:
  "(case check_cert example_env (example_session [9, 9, 9]) initial_state of
      Inl h \<Rightarrow> False
    | Inr (rc, st) \<Rightarrow>
        rc = 0 \<and>
        (case check_cert silent_env (example_session [1, 2, 3]) st of
           Inl h \<Rightarrow> h = NullDeref
         | Inr r \<Rightarrow> False))"
  by code_simp

text \<open>
  C1. \<^verbatim>\<open>cert_tdb_store\<close> prints the array \<^verbatim>\<open>b64\<close> with \<^verbatim>\<open>%s\<close> although
  \<^verbatim>\<open>base64_encode_raw\<close> has written no terminator (lines 121-131). Where the array
  holds \<^verbatim>\<open>Zm9v\<close> behind the encoding, the first check of the key \<open>[1, 2, 3]\<close>
  stores it without a prompt, and the second check of the same key does not find it
  trusted: the operator is prompted and, answering no, refused. Where the byte behind
  the encoding is NUL the second check returns 0 without a prompt.
\<close>

theorem stored_key_not_trusted_after_stale_buffer:
  "(case check_cert stale_env (example_session [1, 2, 3]) initial_state of
      Inl h \<Rightarrow> False
    | Inr (rc, st) \<Rightarrow>
        rc = 0 \<and> shown st = [] \<and>
        (case check_cert stale_env (example_session [1, 2, 3]) st of
           Inl h \<Rightarrow> False
         | Inr (rc', st') \<Rightarrow> rc' = 1 \<and> length (shown st') = 1)) \<and>
   (case check_cert example_env (example_session [1, 2, 3]) initial_state of
      Inl h \<Rightarrow> False
    | Inr (rc, st) \<Rightarrow>
        rc = 0 \<and> shown st = [] \<and>
        (case check_cert example_env (example_session [1, 2, 3]) st of
           Inl h \<Rightarrow> False
         | Inr (rc', st') \<Rightarrow> rc' = 0 \<and> shown st' = []))"
  by code_simp

end
